theory Spec2Isabelle
  imports Main
begin

section \<open>Python values as the checker sees them\<close>

text \<open>
  The checker of \<^verbatim>\<open>version_checker.py\<close> works on whatever \<^verbatim>\<open>yaml.safe_load\<close>
  and \<^verbatim>\<open>response.json()\<close> hand back, so the model carries dynamically typed values:
  null, booleans, integers, strings, lists and mappings (an association list in document
  order; a parser hands back mappings with distinct keys, and a lookup takes the first
  entry whose key is equal). Floats, timestamps and binary scalars are left out of the model.
\<close>

datatype pyval =
    PNone
  | PBool bool
  | PInt int
  | PStr string
  | PList "pyval list"
  | PDict "(pyval \<times> pyval) list"

datatype exn =
    KeyError
  | IndexError
  | TypeError
  | AttributeError
  | YAMLError
  | FileNotFoundError
  | OSError
  | RequestException

text \<open>Python truthiness, as used by \<^verbatim>\<open>not x\<close> and \<^verbatim>\<open>if x\<close>.\<close>

fun truthy :: "pyval \<Rightarrow> bool" where
  "truthy PNone = False"
| "truthy (PBool b) = b"
| "truthy (PInt i) = (i \<noteq> 0)"
| "truthy (PStr s) = (s \<noteq> [])"
| "truthy (PList xs) = (xs \<noteq> [])"
| "truthy (PDict d) = (d \<noteq> [])"

text \<open>Lists and mappings are unhashable: they cannot be used as a mapping key.\<close>

fun hashable :: "pyval \<Rightarrow> bool" where
  "hashable (PList xs) = False"
| "hashable (PDict d) = False"
| "hashable v = True"

text \<open>Equality of two hashable scalars; \<^verbatim>\<open>True == 1\<close> and \<^verbatim>\<open>False == 0\<close> hold in Python.\<close>

fun key_eq :: "pyval \<Rightarrow> pyval \<Rightarrow> bool" where
  "key_eq PNone PNone = True"
| "key_eq (PBool a) (PBool b) = (a = b)"
| "key_eq (PBool a) (PInt i) = (i = (if a then 1 else 0))"
| "key_eq (PInt i) (PBool a) = (i = (if a then 1 else 0))"
| "key_eq (PInt i) (PInt j) = (i = j)"
| "key_eq (PStr s) (PStr t) = (s = t)"
| "key_eq u v = False"

fun dict_find :: "(pyval \<times> pyval) list \<Rightarrow> pyval \<Rightarrow> pyval option" where
  "dict_find [] k = None"
| "dict_find ((k', v) # d) k = (if key_eq k' k then Some v else dict_find d k)"

text \<open>\<^verbatim>\<open>d.get(key, default)\<close> with a string key.\<close>

definition dict_get :: "(pyval \<times> pyval) list \<Rightarrow> string \<Rightarrow> pyval \<Rightarrow> pyval" where
  "dict_get d k dflt = (case dict_find d (PStr k) of None \<Rightarrow> dflt | Some v \<Rightarrow> v)"

text \<open>An integer or a boolean can index a sequence; negative indices count from the end.\<close>

fun py_index :: "pyval \<Rightarrow> int option" where
  "py_index (PInt i) = Some i"
| "py_index (PBool b) = Some (if b then 1 else 0)"
| "py_index v = None"

definition seq_index :: "'a list \<Rightarrow> int \<Rightarrow> exn + 'a" where
  "seq_index xs i =
     (if 0 \<le> i \<and> i < int (length xs) then Inr (xs ! nat i)
      else if i < 0 \<and> - int (length xs) \<le> i then Inr (xs ! nat (int (length xs) + i))
      else Inl IndexError)"

text \<open>The subscript \<^verbatim>\<open>c[k]\<close>.\<close>

fun py_getitem :: "pyval \<Rightarrow> pyval \<Rightarrow> exn + pyval" where
  "py_getitem (PDict d) k =
     (if hashable k
      then (case dict_find d k of None \<Rightarrow> Inl KeyError | Some v \<Rightarrow> Inr v)
      else Inl TypeError)"
| "py_getitem (PList xs) k =
     (case py_index k of None \<Rightarrow> Inl TypeError | Some i \<Rightarrow> seq_index xs i)"
| "py_getitem (PStr s) k =
     (case py_index k of
        None \<Rightarrow> Inl TypeError
      | Some i \<Rightarrow> (case seq_index s i of Inl e \<Rightarrow> Inl e | Inr c \<Rightarrow> Inr (PStr [c])))"
| "py_getitem c k = Inl TypeError"

text \<open>Decimal rendering of integers, for \<^verbatim>\<open>str\<close>.\<close>

fun show_nat :: "nat \<Rightarrow> string" where
  "show_nat n =
     (if n < 10 then [char_of (48 + n)]
      else show_nat (n div 10) @ [char_of (48 + n mod 10)])"

definition show_int :: "int \<Rightarrow> string" where
  "show_int i = (if i < 0 then CHR ''-'' # show_nat (nat (- i)) else show_nat (nat i))"

text \<open>
  \<^verbatim>\<open>str(v)\<close>, which is also what an f-string field prints. On a list or a mapping
  Python prints the \<^verbatim>\<open>repr\<close> of the container; that renderer is the parameter \<open>rp\<close>.
\<close>

fun py_str :: "(pyval \<Rightarrow> string) \<Rightarrow> pyval \<Rightarrow> string" where
  "py_str rp PNone = ''None''"
| "py_str rp (PBool b) = (if b then ''True'' else ''False'')"
| "py_str rp (PInt i) = show_int i"
| "py_str rp (PStr s) = s"
| "py_str rp v = rp v"

text \<open>\<^verbatim>\<open>s.rstrip('/')\<close>; only strings have the method.\<close>

definition rstrip_slash :: "string \<Rightarrow> string" where
  "rstrip_slash s = rev (dropWhile (\<lambda>c. c = CHR ''/'') (rev s))"

fun py_rstrip :: "pyval \<Rightarrow> exn + string" where
  "py_rstrip (PStr s) = Inr (rstrip_slash s)"
| "py_rstrip v = Inl AttributeError"

text \<open>Iteration: a list yields its elements, a mapping its keys, a string its characters.\<close>

fun py_iter :: "pyval \<Rightarrow> exn + pyval list" where
  "py_iter (PList xs) = Inr xs"
| "py_iter (PDict d) = Inr (map fst d)"
| "py_iter (PStr s) = Inr (map (\<lambda>c. PStr [c]) s)"
| "py_iter v = Inl TypeError"

text \<open>\<^verbatim>\<open>', '.join(xs)\<close>: every item must be a string.\<close>

fun join_strs :: "pyval list \<Rightarrow> exn + string" where
  "join_strs [] = Inr []"
| "join_strs [PStr s] = Inr s"
| "join_strs (PStr s # x # xs) =
     (case join_strs (x # xs) of Inl e \<Rightarrow> Inl e | Inr r \<Rightarrow> Inr (s @ '', '' @ r))"
| "join_strs (v # xs) = Inl TypeError"

definition py_join :: "pyval \<Rightarrow> exn + string" where
  "py_join v = (case py_iter v of Inl e \<Rightarrow> Inl e | Inr xs \<Rightarrow> join_strs xs)"

declare show_nat.simps [simp del]

section \<open>Effects, outcomes and the world outside the process\<close>

datatype stream = Stdout | Stderr

text \<open>One constructor per \<^verbatim>\<open>print\<close> of the source, carrying the values it interpolates.\<close>

datatype message =
    No_specific_maintainers string
  | Maintainers_not_found string
  | Maintainers_unreadable exn
  | Invalid_repo_url string
  | Index_download_failed string
  | Index_parse_failed string string exn
  | Issues_check_failed
  | Issue_created string string
  | Issue_create_failed string
  | Missing_repo_or_token
  | Maintainers_file_missing string
  | Running_on string
  | No_values_files string
  | Processing_file string
  | Values_unreadable string
  | Not_a_dictionary string string
  | Missing_chart string string
  | Separator
  | Checking string string
  | Your_version string
  | Latest_version string
  | Found_new_version string
  | Found_maintainers string string
  | Issue_exists string string
  | Script_finished

datatype event =
    Print stream message
  | Get_index string
  | Get_issues string "(string \<times> pyval) list"
  | Post_issue string string string pyval

text \<open>
  How a call ends: it returns, an exception leaves it, \<^verbatim>\<open>sys.exit\<close> was called, or the
  pagination loop used up the page budget of the model.
\<close>

datatype 'a outcome = Returned 'a | Raised exn | Sys_exit nat | Out_of_fuel

type_synonym 'a comp = "event list \<times> 'a outcome"

definition emit :: "event list \<Rightarrow> unit comp" where
  "emit es = (es, Returned ())"

definition lift :: "exn + 'a \<Rightarrow> 'a comp" where
  "lift r = (case r of Inl e \<Rightarrow> ([], Raised e) | Inr v \<Rightarrow> ([], Returned v))"

text \<open>Sequencing: the second statement runs only when the first returned.\<close>

fun bind_comp :: "'a comp \<Rightarrow> ('a \<Rightarrow> 'b comp) \<Rightarrow> 'b comp" where
  "bind_comp (tr, Returned x) f = (case f x of (tr', r) \<Rightarrow> (tr @ tr', r))"
| "bind_comp (tr, Raised e) f = (tr, Raised e)"
| "bind_comp (tr, Sys_exit n) f = (tr, Sys_exit n)"
| "bind_comp (tr, Out_of_fuel) f = (tr, Out_of_fuel)"

text \<open>\<^verbatim>\<open>try: ... except\<close>: the handler answers \<open>None\<close> for an exception no clause names.\<close>

fun catch :: "'a comp \<Rightarrow> (exn \<Rightarrow> 'a comp option) \<Rightarrow> 'a comp" where
  "catch (tr, Raised e) h =
     (case h e of None \<Rightarrow> (tr, Raised e) | Some (tr', r) \<Rightarrow> (tr @ tr', r))"
| "catch (tr, r) h = (tr, r)"

text \<open>
  The world of one run. Reading and parsing a local YAML file, fetching and parsing a chart
  index and listing one page of issues either fail with the exception the library raises
  or give the parsed value; a page of issues comes with the URL of its \<^verbatim>\<open>next\<close> link.
\<close>

record env =
  REPO :: "string option"
  path_is_file :: "string \<Rightarrow> bool"
  glob_values :: "string \<Rightarrow> (string \<times> string) list"
  load_yaml_file :: "string \<Rightarrow> exn + pyval"
  fetch_index :: "string \<Rightarrow> exn + pyval"
  list_issues :: "string \<Rightarrow> (string \<times> pyval) list \<Rightarrow> exn + (pyval \<times> string option)"
  post_issue :: "string \<Rightarrow> string \<Rightarrow> string \<Rightarrow> pyval \<Rightarrow> exn + unit"
  repr_of :: "pyval \<Rightarrow> string"

record args =
  token :: string
  charts_path :: string
  maintainers_file :: string

definition API_URL :: string where
  "API_URL = ''https://api.github.com''"

section \<open>The routines of \<^verbatim>\<open>version_checker.py\<close>\<close>

subsection \<open>\<^verbatim>\<open>get_maintainers\<close>\<close>

definition maintainers_try :: "env \<Rightarrow> string \<Rightarrow> string \<Rightarrow> pyval comp" where
  "maintainers_try E file_path app_group =
     bind_comp (lift (load_yaml_file E file_path)) (\<lambda>maintainers_data.
       case maintainers_data of
         PDict d \<Rightarrow>
           (let assignees = dict_get d app_group (PList []) in
            if \<not> truthy assignees
            then ([Print Stdout (No_specific_maintainers app_group)],
                  Returned (dict_get d ''default'' (PList [])))
            else ([], Returned assignees))
       | _ \<Rightarrow> ([], Raised AttributeError))"

definition get_maintainers :: "env \<Rightarrow> string \<Rightarrow> string \<Rightarrow> pyval comp" where
  "get_maintainers E file_path app_group =
     catch (maintainers_try E file_path app_group)
       (\<lambda>e. if e = FileNotFoundError
             then Some ([Print Stderr (Maintainers_not_found file_path)], Returned (PList []))
             else Some ([Print Stderr (Maintainers_unreadable e)], Returned (PList [])))"

subsection \<open>\<^verbatim>\<open>get_latest_helm_version\<close>\<close>

text \<open>\<^verbatim>\<open>index_data['entries'][chart_name][0]['version']\<close>, left to right.\<close>

definition index_lookup :: "pyval \<Rightarrow> pyval \<Rightarrow> exn + pyval" where
  "index_lookup index_data chart_name =
     (case py_getitem index_data (PStr ''entries'') of
        Inl e \<Rightarrow> Inl e
      | Inr entries \<Rightarrow>
          (case py_getitem entries chart_name of
             Inl e \<Rightarrow> Inl e
           | Inr releases \<Rightarrow>
               (case py_getitem releases (PInt 0) of
                  Inl e \<Rightarrow> Inl e
                | Inr newest \<Rightarrow> py_getitem newest (PStr ''version''))))"

definition get_latest_helm_version :: "env \<Rightarrow> pyval \<Rightarrow> pyval \<Rightarrow> pyval \<Rightarrow> pyval comp" where
  "get_latest_helm_version E repo_url chart_name repoPath =
     (if \<not> truthy repo_url \<or> repo_url = PStr ''null''
      then ([Print Stderr (Invalid_repo_url (py_str (repr_of E) chart_name))], Returned PNone)
      else
        bind_comp (lift (py_rstrip repo_url)) (\<lambda>stripped.
          let index_url = stripped @ ''/index.yaml'' in
          catch
            (bind_comp (emit [Get_index index_url]) (\<lambda>_.
               bind_comp (lift (fetch_index E index_url)) (\<lambda>index_data.
                 lift (index_lookup index_data chart_name))))
            (\<lambda>e. if e = RequestException
                  then Some ([Print Stderr (Index_download_failed index_url)], Returned PNone)
                  else if e = KeyError \<or> e = IndexError \<or> e = TypeError
                  then Some ([Print Stderr
                               (Index_parse_failed (py_str (repr_of E) chart_name) index_url e)],
                             Returned PNone)
                  else None)))"

subsection \<open>\<^verbatim>\<open>check_existing_issue\<close>\<close>

text \<open>
  The \<^verbatim>\<open>for\<close> loop over one page: the first issue whose title equals the wanted one ends
  the search with its \<^verbatim>\<open>number\<close> field; an item that is no mapping has no \<^verbatim>\<open>get\<close>.
\<close>

fun scan_issues :: "string \<Rightarrow> pyval list \<Rightarrow> exn + pyval option" where
  "scan_issues title [] = Inr None"
| "scan_issues title (PDict d # rest) =
     (if dict_get d ''title'' PNone = PStr title
      then Inr (Some (dict_get d ''number'' PNone))
      else scan_issues title rest)"
| "scan_issues title (v # rest) = Inl AttributeError"

datatype loop_step = Return pyval | Continue "string option" "(string \<times> pyval) list"

text \<open>One turn of the \<^verbatim>\<open>while url\<close> loop: the \<^verbatim>\<open>try\<close> block and its handler.\<close>

definition issues_page ::
  "env \<Rightarrow> string \<Rightarrow> string \<Rightarrow> (string \<times> pyval) list \<Rightarrow> loop_step comp" where
  "issues_page E title url params =
     catch
       (bind_comp (emit [Get_issues url params]) (\<lambda>_.
          bind_comp (lift (list_issues E url params)) (\<lambda>(issues, next_link).
            bind_comp (lift (py_iter issues)) (\<lambda>items.
              bind_comp (lift (scan_issues title items)) (\<lambda>found.
                case found of
                  Some number \<Rightarrow> ([], Returned (Return number))
                | None \<Rightarrow>
                    (case next_link of
                       Some u \<Rightarrow> ([], Returned (Continue (Some u) []))
                     | None \<Rightarrow> ([], Returned (Continue None params))))))))
       (\<lambda>e. if e = RequestException
             then Some ([Print Stderr Issues_check_failed], Returned (Return PNone))
             else None)"

text \<open>
  The loop, with a budget of page requests: \<open>Out_of_fuel\<close> stands for a loop still
  running. \<^verbatim>\<open>while url\<close> ends on \<^verbatim>\<open>None\<close> and on the empty string.
\<close>

fun issues_loop ::
  "nat \<Rightarrow> env \<Rightarrow> string \<Rightarrow> string option \<Rightarrow> (string \<times> pyval) list \<Rightarrow> pyval comp" where
  "issues_loop fuel E title None params = ([], Returned PNone)"
| "issues_loop fuel E title (Some []) params = ([], Returned PNone)"
| "issues_loop 0 E title (Some (c # u)) params = ([], Out_of_fuel)"
| "issues_loop (Suc fuel) E title (Some (c # u)) params =
     bind_comp (issues_page E title (c # u) params) (\<lambda>step.
       case step of
         Return v \<Rightarrow> ([], Returned v)
       | Continue url' params' \<Rightarrow> issues_loop fuel E title url' params')"

definition check_existing_issue ::
  "nat \<Rightarrow> env \<Rightarrow> string \<Rightarrow> string \<Rightarrow> string \<Rightarrow> pyval comp" where
  "check_existing_issue fuel E repo tok title =
     issues_loop fuel E title (Some (API_URL @ ''/repos/'' @ repo @ ''/issues''))
       [(''state'', PStr ''open''), (''per_page'', PInt 100)]"

subsection \<open>\<^verbatim>\<open>create_github_issue\<close>\<close>

definition create_github_issue ::
  "env \<Rightarrow> string \<Rightarrow> string \<Rightarrow> string \<Rightarrow> string \<Rightarrow> pyval \<Rightarrow> unit comp" where
  "create_github_issue E repo tok title body assignees =
     (let issues_url = API_URL @ ''/repos/'' @ repo @ ''/issues'' in
      catch
        (bind_comp (emit [Post_issue issues_url title body assignees]) (\<lambda>_.
           bind_comp (lift (post_issue E issues_url title body assignees)) (\<lambda>_.
             bind_comp (lift (py_join assignees)) (\<lambda>joined.
               emit [Print Stdout (Issue_created title joined)]))))
        (\<lambda>e. if e = RequestException
              then Some ([Print Stderr (Issue_create_failed title)], Returned ())
              else None))"

subsection \<open>\<^verbatim>\<open>main\<close>\<close>

definition nl :: string where
  "nl = [CHR 0x0A]"

definition issue_title :: "string \<Rightarrow> string \<Rightarrow> string" where
  "issue_title name latest_version = ''New Version Available: '' @ name @ '' '' @ latest_version"

definition issue_body :: "string \<Rightarrow> string \<Rightarrow> string \<Rightarrow> string \<Rightarrow> string \<Rightarrow> string" where
  "issue_body repo value_file name target_revision latest_version =
     ''New version available for **'' @ name @ ''**!'' @ nl @ nl @
     ''Current `targetRevision` set: `'' @ target_revision @ ''`'' @ nl @
     ''New version available: `'' @ latest_version @ ''`'' @ nl @ nl @
     ''Please consider creating a PR to update the `targetRevision` in this file: '' @
     ''['' @ value_file @ ''](https://github.com/'' @ repo @ ''/blob/main/'' @ value_file @ '')'' @
     nl @ nl @ ''Thanks.''"

text \<open>The body of \<^verbatim>\<open>if latest_version != target_revision and target_revision\<close>.\<close>

definition notify ::
  "nat \<Rightarrow> env \<Rightarrow> args \<Rightarrow> string \<Rightarrow> string \<Rightarrow> string \<Rightarrow> string \<Rightarrow> string \<Rightarrow> string \<Rightarrow> unit comp" where
  "notify fuel E A repo value_file app_group name target_revision latest_version =
     (let title = issue_title name latest_version in
      bind_comp (check_existing_issue fuel E repo (token A) title) (\<lambda>existing_issue_number.
        if \<not> truthy existing_issue_number
        then
          bind_comp (emit [Print Stdout (Found_new_version name)]) (\<lambda>_.
            bind_comp (get_maintainers E (maintainers_file A) app_group) (\<lambda>assignees.
              bind_comp
                (if truthy assignees
                 then bind_comp (lift (py_join assignees)) (\<lambda>joined.
                        emit [Print Stdout (Found_maintainers app_group joined)])
                 else emit [])
                (\<lambda>_.
                  create_github_issue E repo (token A) title
                    (issue_body repo value_file name target_revision latest_version)
                    assignees)))
        else
          emit [Print Stdout
                  (Issue_exists (py_str (repr_of E) existing_issue_number) title)]))"

text \<open>One turn of \<^verbatim>\<open>for name, details in apps_data.items()\<close>.\<close>

definition process_app ::
  "nat \<Rightarrow> env \<Rightarrow> args \<Rightarrow> string \<Rightarrow> string \<Rightarrow> string \<Rightarrow> pyval \<times> pyval \<Rightarrow> unit comp" where
  "process_app fuel E A repo value_file app_group item =
     (case item of (name, details) \<Rightarrow>
        (case details of
           PDict d \<Rightarrow>
             (let repo_url = dict_get d ''repoURL'' PNone;
                  target_revision = py_str (repr_of E) (dict_get d ''targetRevision'' (PStr []));
                  chart = dict_get d ''chart'' PNone;
                  repoPath = dict_get d ''chart'' PNone
              in
              if \<not> truthy chart \<or> \<not> truthy repoPath
              then emit [Print Stdout (Missing_chart (py_str (repr_of E) name) value_file)]
              else
                bind_comp (get_latest_helm_version E repo_url chart repoPath) (\<lambda>latest_version.
                  if \<not> truthy latest_version then emit []
                  else
                    bind_comp
                      (emit [Print Stdout Separator,
                             Print Stdout (Checking (py_str (repr_of E) name) app_group),
                             Print Stdout (Your_version target_revision),
                             Print Stdout (Latest_version (py_str (repr_of E) latest_version)),
                             Print Stdout Separator])
                      (\<lambda>_.
                        if latest_version \<noteq> PStr target_revision \<and> target_revision \<noteq> []
                        then notify fuel E A repo value_file app_group
                               (py_str (repr_of E) name) target_revision
                               (py_str (repr_of E) latest_version)
                        else emit [])))
         | _ \<Rightarrow> emit [Print Stderr (Not_a_dictionary (py_str (repr_of E) name) value_file)]))"

fun process_apps ::
  "nat \<Rightarrow> env \<Rightarrow> args \<Rightarrow> string \<Rightarrow> string \<Rightarrow> string \<Rightarrow> (pyval \<times> pyval) list \<Rightarrow> unit comp" where
  "process_apps fuel E A repo value_file app_group [] = emit []"
| "process_apps fuel E A repo value_file app_group (item # items) =
     bind_comp (process_app fuel E A repo value_file app_group item) (\<lambda>_.
       process_apps fuel E A repo value_file app_group items)"

text \<open>
  One turn of \<^verbatim>\<open>for value_file in values_files\<close>; a values file is given by its path
  and the name of its parent directory.
\<close>

definition process_file ::
  "nat \<Rightarrow> env \<Rightarrow> args \<Rightarrow> string \<Rightarrow> string \<times> string \<Rightarrow> unit comp" where
  "process_file fuel E A repo vf =
     (case vf of (value_file, app_group) \<Rightarrow>
        bind_comp (emit [Print Stdout (Processing_file value_file)]) (\<lambda>_.
          case load_yaml_file E value_file of
            Inl e \<Rightarrow> emit [Print Stderr (Values_unreadable value_file)]
          | Inr apps_data \<Rightarrow>
              if \<not> truthy apps_data then emit []
              else (case apps_data of
                      PDict apps \<Rightarrow> process_apps fuel E A repo value_file app_group apps
                    | _ \<Rightarrow> ([], Raised AttributeError))))"

fun process_files ::
  "nat \<Rightarrow> env \<Rightarrow> args \<Rightarrow> string \<Rightarrow> (string \<times> string) list \<Rightarrow> unit comp" where
  "process_files fuel E A repo [] = emit []"
| "process_files fuel E A repo (vf # vfs) =
     bind_comp (process_file fuel E A repo vf) (\<lambda>_. process_files fuel E A repo vfs)"

text \<open>
  \<^verbatim>\<open>main\<close>, after \<^verbatim>\<open>parse_args\<close>. \<^verbatim>\<open>REPO\<close> is falsy when the variable is unset or
  empty.
\<close>

definition main :: "nat \<Rightarrow> env \<Rightarrow> args \<Rightarrow> unit comp" where
  "main fuel E A =
     (case REPO E of
        None \<Rightarrow> ([Print Stderr Missing_repo_or_token], Sys_exit 1)
      | Some repo \<Rightarrow>
          if repo = [] \<or> token A = []
          then ([Print Stderr Missing_repo_or_token], Sys_exit 1)
          else if \<not> path_is_file E (maintainers_file A)
          then ([Print Stderr (Maintainers_file_missing (maintainers_file A))], Sys_exit 1)
          else
            bind_comp (emit [Print Stdout (Running_on repo)]) (\<lambda>_.
              let values_files = glob_values E (charts_path A) in
              if values_files = []
              then emit [Print Stdout (No_values_files (charts_path A))]
              else
                bind_comp (process_files fuel E A repo values_files) (\<lambda>_.
                  emit [Print Stdout Script_finished])))"

text \<open>The exit status of the interpreter: an uncaught exception ends the process with 1.\<close>

fun exit_status :: "'a outcome \<Rightarrow> nat option" where
  "exit_status (Returned x) = Some 0"
| "exit_status (Raised e) = Some 1"
| "exit_status (Sys_exit n) = Some n"
| "exit_status Out_of_fuel = None"

section \<open>Notions used to state the properties\<close>

text \<open>What a trace shows: a request to the issue listing, a request to create an issue.\<close>

fun is_search :: "event \<Rightarrow> bool" where
  "is_search (Get_issues u p) = True"
| "is_search e = False"

fun is_post :: "event \<Rightarrow> bool" where
  "is_post (Post_issue u t b a) = True"
| "is_post e = False"

definition searches :: "event list \<Rightarrow> bool" where
  "searches tr = list_ex is_search tr"

definition posts :: "event list \<Rightarrow> bool" where
  "posts tr = list_ex is_post tr"

text \<open>
  A small world in the shape of the repository's test fixtures: one group
  \<^verbatim>\<open>firsttest-apps\<close> with the application \<^verbatim>\<open>certManager\<close>, a chart index whose newest
  \<^verbatim>\<open>cert-manager\<close> release is \<open>v\<close>, and an issue tracker answering with \<open>tracker\<close>.
\<close>

definition demo_index :: "string \<Rightarrow> pyval" where
  "demo_index v =
     PDict [(PStr ''entries'',
             PDict [(PStr ''cert-manager'', PList [PDict [(PStr ''version'', PStr v)]])])]"

definition demo_details :: "pyval \<Rightarrow> (pyval \<times> pyval) list" where
  "demo_details revision =
     [(PStr ''repoURL'', PStr ''https://charts.jetstack.io''),
      (PStr ''chart'', PStr ''cert-manager''),
      (PStr ''targetRevision'', revision)]"

definition demo_maintainers :: pyval where
  "demo_maintainers =
     PDict [(PStr ''default'', PList [PStr ''gh-user1'']),
            (PStr ''firsttest-apps'', PList [PStr ''gh-user2''])]"

definition demo_env ::
  "string \<Rightarrow> pyval \<Rightarrow>
   (string \<Rightarrow> (string \<times> pyval) list \<Rightarrow> exn + (pyval \<times> string option)) \<Rightarrow> env" where
  "demo_env v revision tracker =
     \<lparr>REPO = Some ''test-owner/test-repo'',
      path_is_file = (\<lambda>p. True),
      glob_values = (\<lambda>p. [(''charts/firsttest-apps/values.yaml'', ''firsttest-apps'')]),
      load_yaml_file = (\<lambda>p. if p = ''MAINTAINERS.yaml'' then Inr demo_maintainers
                            else Inr (PDict [(PStr ''certManager'', PDict (demo_details revision))])),
      fetch_index = (\<lambda>u. if u = ''https://charts.jetstack.io/index.yaml''
                         then Inr (demo_index v) else Inl RequestException),
      list_issues = tracker,
      post_issue = (\<lambda>u t b a. Inr ()),
      repr_of = (\<lambda>v. [])\<rparr>"

definition demo_args :: args where
  "demo_args = \<lparr>token = ''fake-token'', charts_path = ''charts'',
                 maintainers_file = ''MAINTAINERS.yaml''\<rparr>"

text \<open>A tracker with no open issue at all.\<close>

definition no_issues :: "string \<Rightarrow> (string \<times> pyval) list \<Rightarrow> exn + (pyval \<times> string option)" where
  "no_issues u p = Inr (PList [], None)"

text \<open>
  The pages a search meets. \<open>unmatched title\<close> is an issue object whose title is not the
  wanted one; \<open>page\<close> is a successful reply with a \<^verbatim>\<open>next\<close> link; \<open>serves E url params rs\<close>
  says that following the links from \<open>url\<close> the tracker of \<open>E\<close> answers with the replies
  \<open>rs\<close> in this order; \<open>visited\<close> lists the requests made on the way.
\<close>

fun unmatched :: "string \<Rightarrow> pyval \<Rightarrow> bool" where
  "unmatched title (PDict d) = (dict_get d ''title'' PNone \<noteq> PStr title)"
| "unmatched title v = False"

fun page :: "pyval list \<times> string \<Rightarrow> exn + (pyval \<times> string option)" where
  "page (items, u) = Inr (PList items, Some u)"

fun serves :: "env \<Rightarrow> string \<Rightarrow> (string \<times> pyval) list \<Rightarrow> (exn + (pyval \<times> string option)) list \<Rightarrow> bool" where
  "serves E url params [] = True"
| "serves E url params (r # rs) =
     (url \<noteq> [] \<and> list_issues E url params = r \<and>
      (case rs of
         [] \<Rightarrow> True
       | r' # rs' \<Rightarrow> (case r of Inr (issues, Some u) \<Rightarrow> serves E u [] rs | _ \<Rightarrow> False)))"

fun visited :: "string \<Rightarrow> (string \<times> pyval) list \<Rightarrow> (exn + (pyval \<times> string option)) list \<Rightarrow> event list" where
  "visited url params [] = []"
| "visited url params (r # rs) =
     Get_issues url params #
     (case r of Inr (issues, Some u) \<Rightarrow> visited u [] rs | _ \<Rightarrow> [])"

definition first_params :: "(string \<times> pyval) list" where
  "first_params = [(''state'', PStr ''open''), (''per_page'', PInt 100)]"

text \<open>
  The branch of \<^verbatim>\<open>if not existing_issue_number\<close> in \<^verbatim>\<open>main\<close>, named so that it can be
  compared across runs; \<open>notify_not_found\<close> below ties it to \<open>notify\<close>. Then two trackers
  for the fixture: the wanted issue on the second page, and a second page that fails.
\<close>

definition create_branch ::
  "env \<Rightarrow> args \<Rightarrow> string \<Rightarrow> string \<Rightarrow> string \<Rightarrow> string \<Rightarrow> string \<Rightarrow> string \<Rightarrow> unit comp" where
  "create_branch E A repo value_file app_group name target_revision latest_version =
     bind_comp (emit [Print Stdout (Found_new_version name)]) (\<lambda>_.
       bind_comp (get_maintainers E (maintainers_file A) app_group) (\<lambda>assignees.
         bind_comp
           (if truthy assignees
            then bind_comp (lift (py_join assignees)) (\<lambda>joined.
                   emit [Print Stdout (Found_maintainers app_group joined)])
            else emit [])
           (\<lambda>_.
             create_github_issue E repo (token A) (issue_title name latest_version)
               (issue_body repo value_file name target_revision latest_version)
               assignees)))"

definition two_pages :: "string \<Rightarrow> string \<Rightarrow> (string \<times> pyval) list \<Rightarrow> exn + (pyval \<times> string option)" where
  "two_pages title u p =
     (if u = ''https://api.github.com/repos/test-owner/test-repo/issues''
      then Inr (PList [PDict [(PStr ''title'', PStr ''Wrong issue''), (PStr ''number'', PInt 111)]],
                Some ''https://api.github.com/repos/test-owner/test-repo/issues?page=2'')
      else if u = ''https://api.github.com/repos/test-owner/test-repo/issues?page=2''
      then Inr (PList [PDict [(PStr ''title'', PStr title), (PStr ''number'', PInt 123)]], None)
      else Inl RequestException)"

definition second_page_fails :: "string \<Rightarrow> (string \<times> pyval) list \<Rightarrow> exn + (pyval \<times> string option)" where
  "second_page_fails u p =
     (if u = ''https://api.github.com/repos/test-owner/test-repo/issues''
      then Inr (PList [PDict [(PStr ''title'', PStr ''Wrong issue''), (PStr ''number'', PInt 111)]],
                Some ''https://api.github.com/repos/test-owner/test-repo/issues?page=2'')
      else Inl RequestException)"

text \<open>The run was ended by \<^verbatim>\<open>sys.exit\<close>.\<close>

fun is_exit :: "'a outcome \<Rightarrow> bool" where
  "is_exit (Sys_exit n) = True"
| "is_exit r = False"

text \<open>
  Two worlds with a malformed document: a values file whose document is a list, and a
  chart repository whose \<^verbatim>\<open>index.yaml\<close> is answered with a body that is no YAML document.
\<close>

definition list_values_env :: env where
  "list_values_env =
     (demo_env ''v1.19.1'' (PStr ''v1.18.2'') no_issues)
       \<lparr>load_yaml_file := (\<lambda>p. if p = ''MAINTAINERS.yaml'' then Inr demo_maintainers
                                 else Inr (PList [PStr ''certManager'']))\<rparr>"

definition bad_index_env :: env where
  "bad_index_env =
     (demo_env ''v1.19.1'' (PStr ''v1.18.2'') no_issues)\<lparr>fetch_index := (\<lambda>u. Inl YAMLError)\<rparr>"


section \<open>Basic facts about the model\<close>

lemma bind_emit: "bind_comp (emit es) f = (es @ fst (f ()), snd (f ()))"
  by (simp add: emit_def split: prod.splits)

lemma searches_Nil [simp]: "searches [] = False"
  by (simp add: searches_def)

lemma searches_Cons [simp]: "searches (e # tr) = (is_search e \<or> searches tr)"
  by (simp add: searches_def)

lemma searches_append [simp]: "searches (xs @ ys) = (searches xs \<or> searches ys)"
  by (auto simp: searches_def list_ex_iff)

lemma posts_Nil [simp]: "posts [] = False"
  by (simp add: posts_def)

lemma posts_Cons [simp]: "posts (e # tr) = (is_post e \<or> posts tr)"
  by (simp add: posts_def)

lemma posts_append [simp]: "posts (xs @ ys) = (posts xs \<or> posts ys)"
  by (auto simp: posts_def list_ex_iff)

section \<open>Which requests the resolver and the search make\<close>

lemma latest_no_search: "\<not> searches (fst (get_latest_helm_version E u c r))"
  by (cases u)
     (auto simp: get_latest_helm_version_def Let_def lift_def emit_def split: sum.splits)

lemma api_url_cons: "API_URL @ s = CHR ''h'' # tl (API_URL @ s)"
  by (simp add: API_URL_def)

lemma issues_page_starts:
  "\<exists>tr r. issues_page E t u p = (Get_issues u p # tr, r)"
  by (auto simp: issues_page_def emit_def lift_def split: sum.splits prod.splits option.splits)

lemma check_starts:
  "\<exists>tr r. check_existing_issue (Suc n) E repo tok t =
     (Get_issues (API_URL @ ''/repos/'' @ repo @ ''/issues'')
        [(''state'', PStr ''open''), (''per_page'', PInt 100)] # tr, r)"
proof -
  let ?u = "API_URL @ ''/repos/'' @ repo @ ''/issues''"
  let ?p = "[(''state'', PStr ''open''), (''per_page'', PInt 100)]"
  obtain tr r where pg: "issues_page E t ?u ?p = (Get_issues ?u ?p # tr, r)"
    using issues_page_starts by blast
  obtain c u' where u: "?u = c # u'"
    using api_url_cons by blast
  show ?thesis
    unfolding check_existing_issue_def u
    using pg[unfolded u]
    by (cases r) (auto split: prod.splits)
qed

lemma notify_searches:
  assumes "0 < fuel"
  shows "searches (fst (notify fuel E A repo vf g n t l))"
proof -
  from assms obtain k where k: "fuel = Suc k" by (cases fuel) auto
  obtain tr r where c: "check_existing_issue (Suc k) E repo (token A) (issue_title n l) =
      (Get_issues (API_URL @ ''/repos/'' @ repo @ ''/issues'')
         [(''state'', PStr ''open''), (''per_page'', PInt 100)] # tr, r)"
    using check_starts by blast
  show ?thesis
    unfolding notify_def Let_def k c
    by (cases r) (auto split: prod.splits)
qed

section \<open>Notification trigger\<close>



text \<open>
  The three rows of the truth table on the fixture: declared \<^verbatim>\<open>""\<close> against latest
  \<^verbatim>\<open>v2\<close>, declared \<^verbatim>\<open>v1\<close> against \<^verbatim>\<open>v1\<close>, declared \<^verbatim>\<open>v1\<close> against \<^verbatim>\<open>v2\<close>; and the
  integer \<^verbatim>\<open>7\<close> against declared \<^verbatim>\<open>7\<close>.
\<close>

lemma demo_latest:
  "get_latest_helm_version (demo_env v r tr) (dict_get (demo_details r) ''repoURL'' PNone)
     (dict_get (demo_details r) ''chart'' PNone) (dict_get (demo_details r) ''chart'' PNone) =
   ([Get_index ''https://charts.jetstack.io/index.yaml''], Returned (PStr v))"
  by (simp add: get_latest_helm_version_def demo_env_def demo_details_def demo_index_def
      dict_get_def rstrip_slash_def lift_def emit_def index_lookup_def seq_index_def)







section \<open>Maintainer lookup\<close>

text \<open>
  Claim C5. With a maintainers file that loads as a mapping: a group key holding a
  non-empty list gives exactly that list; a group key that is absent or holds the empty
  list gives what is under \<^verbatim>\<open>default\<close>, and the empty list when \<^verbatim>\<open>default\<close> is absent
  too. A missing file, and a file that fails to load for any other reason, give a message
  on the diagnostic stream and the empty list; the lookup returns in both cases.
\<close>

theorem get_maintainers_lookup:
  "(load_yaml_file E p = Inr (PDict d) \<and> dict_find d (PStr g) = Some (PList (m # ms)) \<longrightarrow>
      get_maintainers E p g = ([], Returned (PList (m # ms)))) \<and>
   (load_yaml_file E p = Inr (PDict d) \<and>
    (dict_find d (PStr g) = None \<or> dict_find d (PStr g) = Some (PList [])) \<and>
    dict_find d (PStr ''default'') = Some dl \<longrightarrow>
      get_maintainers E p g = ([Print Stdout (No_specific_maintainers g)], Returned dl)) \<and>
   (load_yaml_file E p = Inr (PDict d) \<and>
    (dict_find d (PStr g) = None \<or> dict_find d (PStr g) = Some (PList [])) \<and>
    dict_find d (PStr ''default'') = None \<longrightarrow>
      get_maintainers E p g =
        ([Print Stdout (No_specific_maintainers g)], Returned (PList []))) \<and>
   (load_yaml_file E p = Inl FileNotFoundError \<longrightarrow>
      get_maintainers E p g =
        ([Print Stderr (Maintainers_not_found p)], Returned (PList []))) \<and>
   (load_yaml_file E p = Inl e \<and> e \<noteq> FileNotFoundError \<longrightarrow>
      get_maintainers E p g =
        ([Print Stderr (Maintainers_unreadable e)], Returned (PList [])))"
  by (auto simp: get_maintainers_def maintainers_try_def lift_def dict_get_def)

theorem get_maintainers_lookup_witness:
  "get_maintainers (demo_env ''v2'' (PStr ''v1'') no_issues) ''MAINTAINERS.yaml'' ''firsttest-apps'' =
     ([], Returned (PList [PStr ''gh-user2''])) \<and>
   get_maintainers (demo_env ''v2'' (PStr ''v1'') no_issues) ''MAINTAINERS.yaml'' ''secondtest-apps'' =
     ([Print Stdout (No_specific_maintainers ''secondtest-apps'')],
      Returned (PList [PStr ''gh-user1''])) \<and>
   get_maintainers ((demo_env ''v2'' (PStr ''v1'') no_issues)
       \<lparr>load_yaml_file := (\<lambda>p. Inr (PDict [(PStr ''other'', PList [PStr ''gh-user3''])]))\<rparr>)
       ''MAINTAINERS.yaml'' ''firsttest-apps'' =
     ([Print Stdout (No_specific_maintainers ''firsttest-apps'')], Returned (PList [])) \<and>
   get_maintainers ((demo_env ''v2'' (PStr ''v1'') no_issues)
       \<lparr>load_yaml_file := (\<lambda>p. Inl FileNotFoundError)\<rparr>) ''nonexistent/file.yaml'' ''any-app'' =
     ([Print Stderr (Maintainers_not_found ''nonexistent/file.yaml'')], Returned (PList [])) \<and>
   get_maintainers ((demo_env ''v2'' (PStr ''v1'') no_issues)
       \<lparr>load_yaml_file := (\<lambda>p. Inl YAMLError)\<rparr>) ''MAINTAINERS.yaml'' ''any-app'' =
     ([Print Stderr (Maintainers_unreadable YAMLError)], Returned (PList []))"
proof -
  let ?E = "demo_env ''v2'' (PStr ''v1'') no_issues"
  let ?d = "[(PStr ''default'', PList [PStr ''gh-user1'']),
             (PStr ''firsttest-apps'', PList [PStr ''gh-user2''])]"
  let ?o = "[(PStr ''other'', PList [PStr ''gh-user3''])]"
  have ld: "load_yaml_file ?E ''MAINTAINERS.yaml'' = Inr (PDict ?d)"
    by (simp add: demo_env_def demo_maintainers_def)
  show ?thesis
    using get_maintainers_lookup[of ?E "''MAINTAINERS.yaml''" ?d "''firsttest-apps''"
            "PStr ''gh-user2''" "[]"]
          get_maintainers_lookup[of ?E "''MAINTAINERS.yaml''" ?d "''secondtest-apps''" _ _
            "PList [PStr ''gh-user1'']"]
          get_maintainers_lookup[of "?E\<lparr>load_yaml_file := (\<lambda>p. Inr (PDict ?o))\<rparr>"
            "''MAINTAINERS.yaml''" ?o "''firsttest-apps''"]
          get_maintainers_lookup[of "?E\<lparr>load_yaml_file := (\<lambda>p. Inl FileNotFoundError)\<rparr>"
            "''nonexistent/file.yaml''" _ "''any-app''"]
          get_maintainers_lookup[of "?E\<lparr>load_yaml_file := (\<lambda>p. Inl YAMLError)\<rparr>"
            "''MAINTAINERS.yaml''" _ "''any-app''" _ _ _ YAMLError]
    by (simp add: ld)
qed

text \<open>
  Claim C10. When the maintainers file loads but its content is no mapping (an empty file
  loads as null), the attribute access \<^verbatim>\<open>maintainers_data.get\<close> raises an
  \<^verbatim>\<open>AttributeError\<close> inside the \<^verbatim>\<open>try\<close> block; the generic handler catches it, prints an
  error on the diagnostic stream and the lookup returns the empty list.
\<close>

theorem non_mapping_maintainers_caught:
  "load_yaml_file E p = Inr v \<Longrightarrow> \<forall>d. v \<noteq> PDict d \<Longrightarrow>
     maintainers_try E p g = ([], Raised AttributeError) \<and>
     get_maintainers E p g =
       ([Print Stderr (Maintainers_unreadable AttributeError)], Returned (PList []))"
  by (cases v) (auto simp: get_maintainers_def maintainers_try_def lift_def)

theorem non_mapping_maintainers_caught_witness:
  "maintainers_try ((demo_env ''v2'' (PStr ''v1'') no_issues)\<lparr>load_yaml_file := (\<lambda>p. Inr PNone)\<rparr>)
      ''MAINTAINERS.yaml'' ''firsttest-apps'' = ([], Raised AttributeError) \<and>
   get_maintainers ((demo_env ''v2'' (PStr ''v1'') no_issues)\<lparr>load_yaml_file := (\<lambda>p. Inr PNone)\<rparr>)
      ''MAINTAINERS.yaml'' ''firsttest-apps'' =
     ([Print Stderr (Maintainers_unreadable AttributeError)], Returned (PList []))"
  using non_mapping_maintainers_caught
          [of "(demo_env ''v2'' (PStr ''v1'') no_issues)\<lparr>load_yaml_file := (\<lambda>p. Inr PNone)\<rparr>"
              "''MAINTAINERS.yaml''" PNone "''firsttest-apps''"]
  by simp

section \<open>Chart index resolution\<close>

text \<open>
  Claim C6. When the repository URL is absent (\<^verbatim>\<open>details.get("repoURL")\<close> is then
  \<^verbatim>\<open>None\<close>), empty, or the literal string \<^verbatim>\<open>null\<close>, the resolver returns \<^verbatim>\<open>None\<close> at
  once: its whole trace is the warning on the diagnostic stream, so no request was made.
\<close>

theorem invalid_repo_url_short_circuit:
  "repo_url = PNone \<or> repo_url = PStr [] \<or> repo_url = PStr ''null'' \<Longrightarrow>
   get_latest_helm_version E repo_url chart_name repoPath =
     ([Print Stderr (Invalid_repo_url (py_str (repr_of E) chart_name))], Returned PNone)"
  by (auto simp: get_latest_helm_version_def)

theorem invalid_repo_url_short_circuit_witness:
  "get_latest_helm_version (demo_env ''v2'' (PStr ''v1'') no_issues) (PStr ''null'')
     (PStr ''some-chart'') (PStr ''some-chart'') =
     ([Print Stderr (Invalid_repo_url ''some-chart'')], Returned PNone)"
  using invalid_repo_url_short_circuit
          [of "PStr ''null''" "demo_env ''v2'' (PStr ''v1'') no_issues" "PStr ''some-chart''"
              "PStr ''some-chart''"]
  by simp

lemma seq_index_errors: "seq_index xs i = Inl e \<Longrightarrow> e = IndexError"
  by (auto simp: seq_index_def split: if_splits)

lemma getitem_errors:
  "py_getitem c k = Inl e \<Longrightarrow> e = KeyError \<or> e = IndexError \<or> e = TypeError"
  by (cases c) (auto split: if_splits option.splits sum.splits dest: seq_index_errors)

lemma index_lookup_errors:
  "index_lookup doc chart = Inl e \<Longrightarrow> e = KeyError \<or> e = IndexError \<or> e = TypeError"
  by (auto simp: index_lookup_def split: sum.splits dest: getitem_errors)

lemma latest_fetched:
  assumes "u \<noteq> []" "u \<noteq> ''null''"
  shows "get_latest_helm_version E (PStr u) chart rp =
     (case fetch_index E (rstrip_slash u @ ''/index.yaml'') of
        Inl e \<Rightarrow>
          if e = RequestException
          then ([Get_index (rstrip_slash u @ ''/index.yaml''),
                 Print Stderr (Index_download_failed (rstrip_slash u @ ''/index.yaml''))],
                Returned PNone)
          else if e = KeyError \<or> e = IndexError \<or> e = TypeError
          then ([Get_index (rstrip_slash u @ ''/index.yaml''),
                 Print Stderr (Index_parse_failed (py_str (repr_of E) chart)
                                 (rstrip_slash u @ ''/index.yaml'') e)],
                Returned PNone)
          else ([Get_index (rstrip_slash u @ ''/index.yaml'')], Raised e)
      | Inr doc \<Rightarrow>
          (case index_lookup doc chart of
             Inl e \<Rightarrow>
               ([Get_index (rstrip_slash u @ ''/index.yaml''),
                 Print Stderr (Index_parse_failed (py_str (repr_of E) chart)
                                 (rstrip_slash u @ ''/index.yaml'') e)],
                Returned PNone)
           | Inr v \<Rightarrow> ([Get_index (rstrip_slash u @ ''/index.yaml'')], Returned v)))"
  using assms
  by (auto simp: get_latest_helm_version_def Let_def lift_def emit_def
           split: sum.splits dest: index_lookup_errors)

text \<open>
  After a successful fetch whose body parsed to \<open>doc\<close>, the resolver returns exactly what
  the lookup \<^verbatim>\<open>doc['entries'][chart][0]['version']\<close> gives. A lookup that fails can only
  fail with \<^verbatim>\<open>KeyError\<close>, \<^verbatim>\<open>IndexError\<close> or \<^verbatim>\<open>TypeError\<close>; each is caught, the
  parse-level message (another message than the one for a failed download) goes to the
  diagnostic stream and the resolver returns \<^verbatim>\<open>None\<close>. A chart absent from \<^verbatim>\<open>entries\<close>
  gives \<^verbatim>\<open>KeyError\<close>, an empty release list \<^verbatim>\<open>IndexError\<close>, a document that is no mapping
  \<^verbatim>\<open>TypeError\<close>.
\<close>

lemma index_resolution:
  assumes "u \<noteq> []" and "u \<noteq> ''null''"
    and "fetch_index E (rstrip_slash u @ ''/index.yaml'') = Inr doc"
  shows "(index_lookup doc chart = Inr v \<longrightarrow>
            get_latest_helm_version E (PStr u) chart rp =
              ([Get_index (rstrip_slash u @ ''/index.yaml'')], Returned v)) \<and>
         (\<forall>e. index_lookup doc chart = Inl e \<longrightarrow>
            (e = KeyError \<or> e = IndexError \<or> e = TypeError) \<and>
            get_latest_helm_version E (PStr u) chart rp =
              ([Get_index (rstrip_slash u @ ''/index.yaml''),
                Print Stderr (Index_parse_failed (py_str (repr_of E) chart)
                                (rstrip_slash u @ ''/index.yaml'') e)],
               Returned PNone) \<and>
            Index_parse_failed (py_str (repr_of E) chart) (rstrip_slash u @ ''/index.yaml'') e \<noteq>
              Index_download_failed (rstrip_slash u @ ''/index.yaml'')) \<and>
         (doc = PDict root \<and> dict_find root (PStr ''entries'') = Some (PDict entries) \<and>
          hashable chart \<longrightarrow>
            (dict_find entries chart = None \<longrightarrow> index_lookup doc chart = Inl KeyError) \<and>
            (dict_find entries chart = Some (PList []) \<longrightarrow>
               index_lookup doc chart = Inl IndexError) \<and>
            (dict_find entries chart = Some (PList (PDict newest # older)) \<and>
             dict_find newest (PStr ''version'') = Some v \<longrightarrow>
               index_lookup doc chart = Inr v)) \<and>
         ((\<forall>d. doc \<noteq> PDict d) \<longrightarrow> index_lookup doc chart = Inl TypeError)"
proof -
  have a: "index_lookup doc chart = Inr v \<longrightarrow>
            get_latest_helm_version E (PStr u) chart rp =
              ([Get_index (rstrip_slash u @ ''/index.yaml'')], Returned v)"
    by (simp add: latest_fetched[OF assms(1,2)] assms(3))
  have b: "\<forall>e. index_lookup doc chart = Inl e \<longrightarrow>
            (e = KeyError \<or> e = IndexError \<or> e = TypeError) \<and>
            get_latest_helm_version E (PStr u) chart rp =
              ([Get_index (rstrip_slash u @ ''/index.yaml''),
                Print Stderr (Index_parse_failed (py_str (repr_of E) chart)
                                (rstrip_slash u @ ''/index.yaml'') e)],
               Returned PNone) \<and>
            Index_parse_failed (py_str (repr_of E) chart) (rstrip_slash u @ ''/index.yaml'') e \<noteq>
              Index_download_failed (rstrip_slash u @ ''/index.yaml'')"
    using index_lookup_errors[of doc chart]
    by (simp add: latest_fetched[OF assms(1,2)] assms(3))
  have c: "doc = PDict root \<and> dict_find root (PStr ''entries'') = Some (PDict entries) \<and>
          hashable chart \<longrightarrow>
            (dict_find entries chart = None \<longrightarrow> index_lookup doc chart = Inl KeyError) \<and>
            (dict_find entries chart = Some (PList []) \<longrightarrow>
               index_lookup doc chart = Inl IndexError) \<and>
            (dict_find entries chart = Some (PList (PDict newest # older)) \<and>
             dict_find newest (PStr ''version'') = Some v \<longrightarrow>
               index_lookup doc chart = Inr v)"
    by (simp add: index_lookup_def seq_index_def)
  have d: "(\<forall>d. doc \<noteq> PDict d) \<longrightarrow> index_lookup doc chart = Inl TypeError"
    by (cases doc) (auto simp: index_lookup_def seq_index_def split: sum.splits)
  from a b c d show ?thesis by blast
qed

lemma index_resolution_fixture:
  "get_latest_helm_version (demo_env ''v1.19.1'' (PStr ''v1.18.2'') no_issues)
     (PStr ''https://charts.jetstack.io'') (PStr ''cert-manager'') (PStr ''cert-manager'') =
     ([Get_index ''https://charts.jetstack.io/index.yaml''], Returned (PStr ''v1.19.1'')) \<and>
   get_latest_helm_version (demo_env ''v1.19.1'' (PStr ''v1.18.2'') no_issues)
     (PStr ''https://charts.jetstack.io'') (PStr ''chart-does-not-exist'')
     (PStr ''chart-does-not-exist'') =
     ([Get_index ''https://charts.jetstack.io/index.yaml'',
       Print Stderr (Index_parse_failed ''chart-does-not-exist''
                       ''https://charts.jetstack.io/index.yaml'' KeyError)],
      Returned PNone)"
proof -
  let ?E = "demo_env ''v1.19.1'' (PStr ''v1.18.2'') no_issues"
  have n1: "''https://charts.jetstack.io'' \<noteq> []" and n2: "''https://charts.jetstack.io'' \<noteq> ''null''"
    by simp_all
  have f: "fetch_index ?E (rstrip_slash ''https://charts.jetstack.io'' @ ''/index.yaml'') =
             Inr (demo_index ''v1.19.1'')"
    by (simp add: demo_env_def rstrip_slash_def)
  have l1: "index_lookup (demo_index ''v1.19.1'') (PStr ''cert-manager'') = Inr (PStr ''v1.19.1'')"
    by (simp add: index_lookup_def demo_index_def seq_index_def)
  have l2: "index_lookup (demo_index ''v1.19.1'') (PStr ''chart-does-not-exist'') = Inl KeyError"
    by (simp add: index_lookup_def demo_index_def)
  show ?thesis
    using index_resolution[OF n1 n2 f, where chart = "PStr ''cert-manager''"
              and v = "PStr ''v1.19.1''" and rp = "PStr ''cert-manager''"]
          index_resolution[OF n1 n2 f, where chart = "PStr ''chart-does-not-exist''"
              and rp = "PStr ''chart-does-not-exist''"]
    by (simp add: l1 l2 rstrip_slash_def)
qed

text \<open>
  Claim C7. The claim does not hold of the code for every successful fetch. Documents
  that parse are handled as the claim says (\<open>index_resolution\<close>). When the repository
  answers the request for \<^verbatim>\<open>index.yaml\<close> with a body that \<^verbatim>\<open>yaml.safe_load\<close> rejects, the
  \<^verbatim>\<open>YAMLError\<close> is raised inside the \<^verbatim>\<open>try\<close> block and neither handler names it: the
  resolver neither returns a version nor logs the parse-level error and returns \<^verbatim>\<open>None\<close>;
  the exception leaves it.
\<close>

theorem unparsable_index_escapes:
  assumes "u \<noteq> []" and "u \<noteq> ''null''"
    and "fetch_index E (rstrip_slash u @ ''/index.yaml'') = Inl YAMLError"
  shows "get_latest_helm_version E (PStr u) chart rp =
           ([Get_index (rstrip_slash u @ ''/index.yaml'')], Raised YAMLError)"
  by (simp add: latest_fetched[OF assms(1,2)] assms(3))

theorem unparsable_index_escapes_witness:
  "fetch_index bad_index_env ''https://charts.jetstack.io/index.yaml'' = Inl YAMLError \<and>
   get_latest_helm_version bad_index_env (PStr ''https://charts.jetstack.io'')
     (PStr ''cert-manager'') (PStr ''cert-manager'') =
     ([Get_index ''https://charts.jetstack.io/index.yaml''], Raised YAMLError)"
proof -
  have n1: "''https://charts.jetstack.io'' \<noteq> []"
    and n2: "''https://charts.jetstack.io'' \<noteq> ''null''"
    by simp_all
  have f: "fetch_index bad_index_env (rstrip_slash ''https://charts.jetstack.io'' @ ''/index.yaml'') =
             Inl YAMLError"
    by (simp add: bad_index_env_def)
  show ?thesis
    using unparsable_index_escapes[OF n1 n2 f, of "PStr ''cert-manager''" "PStr ''cert-manager''"]
    by (simp add: bad_index_env_def rstrip_slash_def)
qed

section \<open>Paginated issue search\<close>

lemma latest_no_post: "\<not> posts (fst (get_latest_helm_version E u c r))"
  by (cases u)
     (auto simp: get_latest_helm_version_def Let_def lift_def emit_def split: sum.splits)

lemma visited_no_post: "\<not> posts (visited u p rs)"
  by (induction u p rs rule: visited.induct) (auto split: sum.splits option.splits)

lemma scan_unmatched: "list_all (unmatched t) items \<Longrightarrow> scan_issues t items = Inr None"
  by (induction t items rule: scan_issues.induct) auto

lemma scan_found:
  "list_all (unmatched t) pre \<Longrightarrow> dict_get d ''title'' PNone = PStr t \<Longrightarrow>
   scan_issues t (pre @ PDict d # post) = Inr (Some (dict_get d ''number'' PNone))"
  by (induction t pre rule: scan_issues.induct) auto

lemma loop_unfold:
  "url \<noteq> [] \<Longrightarrow>
   issues_loop (Suc n) E t (Some url) params =
     bind_comp (issues_page E t url params) (\<lambda>step.
       case step of
         Return v \<Rightarrow> ([], Returned v)
       | Continue url' params' \<Rightarrow> issues_loop n E t url' params')"
  by (cases url) simp_all

lemma step_continue:
  assumes "url \<noteq> []" "list_issues E url params = Inr (PList items, Some u)"
    "list_all (unmatched t) items"
  shows "issues_loop (Suc n) E t (Some url) params =
     (Get_issues url params # fst (issues_loop n E t (Some u) []),
      snd (issues_loop n E t (Some u) []))"
  using assms
  by (simp add: loop_unfold issues_page_def emit_def lift_def scan_unmatched split: prod.splits)

lemma step_last:
  assumes "url \<noteq> []" "list_issues E url params = Inr (PList items, nxt)"
    "list_all (unmatched t) items" "nxt = None \<or> nxt = Some []"
  shows "issues_loop (Suc n) E t (Some url) params = ([Get_issues url params], Returned PNone)"
  using assms
  by (auto simp add: loop_unfold issues_page_def emit_def lift_def scan_unmatched split: prod.splits)

lemma step_found:
  assumes "url \<noteq> []" "list_issues E url params = Inr (PList (pre @ PDict d # post), nxt)"
    "list_all (unmatched t) pre" "dict_get d ''title'' PNone = PStr t"
  shows "issues_loop (Suc n) E t (Some url) params =
     ([Get_issues url params], Returned (dict_get d ''number'' PNone))"
  using assms
  by (simp add: loop_unfold issues_page_def emit_def lift_def scan_found split: prod.splits)

lemma step_failed:
  assumes "url \<noteq> []" "list_issues E url params = Inl RequestException"
  shows "issues_loop (Suc n) E t (Some url) params =
     ([Get_issues url params, Print Stderr Issues_check_failed], Returned PNone)"
  using assms
  by (simp add: loop_unfold issues_page_def emit_def lift_def split: prod.splits)

lemma serves_step:
  "rs \<noteq> [] \<Longrightarrow>
   serves E url params (Inr (issues, Some u) # rs) =
     (url \<noteq> [] \<and> list_issues E url params = Inr (issues, Some u) \<and> serves E u [] rs)"
  by (cases rs) auto

lemma loop_chain:
  assumes "serves E url params (map page before @ [final])"
    and "\<forall>p \<in> set before. list_all (unmatched t) (fst p)"
    and "length before < fuel"
    and "\<And>n url' params'. url' \<noteq> [] \<Longrightarrow> list_issues E url' params' = final \<Longrightarrow>
           issues_loop (Suc n) E t (Some url') params' = (Get_issues url' params' # ftr, fres)"
  shows "issues_loop fuel E t (Some url) params =
           (visited url params (map page before @ [final]) @ ftr, fres)"
  using assms(1-3)
proof (induction before arbitrary: url params fuel)
  case Nil
  then obtain n where "fuel = Suc n" by (cases fuel) auto
  with Nil assms(4) show ?case by (auto split: sum.splits option.splits)
next
  case (Cons p before)
  then obtain n where n: "fuel = Suc n" by (cases fuel) auto
  obtain items u where p: "p = (items, u)" by (cases p)
  from Cons.prems(1) have url: "url \<noteq> []"
    and li: "list_issues E url params = Inr (PList items, Some u)"
    and rest: "serves E u [] (map page before @ [final])"
    by (simp_all add: p serves_step del: serves.simps)
  from Cons.prems(2) have um: "list_all (unmatched t) items"
    and um': "\<forall>p \<in> set before. list_all (unmatched t) (fst p)"
    by (auto simp: p)
  from Cons.prems(3) n have "length before < n" by simp
  from Cons.IH[OF rest um' this]
  have IH: "issues_loop n E t (Some u) [] = (visited u [] (map page before @ [final]) @ ftr, fres)" .
  show ?case
    unfolding n
    by (simp add: step_continue[OF url li um] IH p)
qed

lemma search_found:
  assumes "serves E (API_URL @ ''/repos/'' @ repo @ ''/issues'') first_params
             (map page before @ [Inr (PList (pre @ PDict d # post), nxt)])"
    and "\<forall>p \<in> set before. list_all (unmatched t) (fst p)"
    and "length before < fuel"
    and "list_all (unmatched t) pre" and "dict_get d ''title'' PNone = PStr t"
  shows "check_existing_issue fuel E repo tok t =
           (visited (API_URL @ ''/repos/'' @ repo @ ''/issues'') first_params
              (map page before @ [Inr (PList (pre @ PDict d # post), nxt)]),
            Returned (dict_get d ''number'' PNone))"
  using loop_chain[OF assms(1-3), of "[]" "Returned (dict_get d ''number'' PNone)"]
    step_found[OF _ _ assms(4,5)]
  by (simp add: check_existing_issue_def first_params_def)

lemma search_exhausted:
  assumes "serves E (API_URL @ ''/repos/'' @ repo @ ''/issues'') first_params
             (map page before @ [Inr (PList items, nxt)])"
    and "\<forall>p \<in> set before. list_all (unmatched t) (fst p)"
    and "length before < fuel"
    and "list_all (unmatched t) items" and "nxt = None \<or> nxt = Some []"
  shows "check_existing_issue fuel E repo tok t =
           (visited (API_URL @ ''/repos/'' @ repo @ ''/issues'') first_params
              (map page before @ [Inr (PList items, nxt)]),
            Returned PNone)"
  using loop_chain[OF assms(1-3), of "[]" "Returned PNone"]
    step_last[OF _ _ assms(4,5)]
  by (simp add: check_existing_issue_def first_params_def)

lemma search_failed:
  assumes "serves E (API_URL @ ''/repos/'' @ repo @ ''/issues'') first_params
             (map page before @ [Inl RequestException])"
    and "\<forall>p \<in> set before. list_all (unmatched t) (fst p)"
    and "length before < fuel"
  shows "check_existing_issue fuel E repo tok t =
           (visited (API_URL @ ''/repos/'' @ repo @ ''/issues'') first_params
              (map page before @ [Inl RequestException]) @ [Print Stderr Issues_check_failed],
            Returned PNone)"
  using loop_chain[OF assms(1-3), of "[Print Stderr Issues_check_failed]" "Returned PNone"]
    step_failed
  by (simp add: check_existing_issue_def first_params_def)

text \<open>
  Claim C4. Let the tracker answer the first request and the requests that follow the
  \<^verbatim>\<open>next\<close> links with the pages \<open>before\<close>, none of which holds an issue titled \<open>t\<close>, and
  then with a page \<open>items\<close>. If \<open>items\<close> holds an issue whose title is exactly \<open>t\<close>, the
  search requests these pages and no further one, and returns the \<^verbatim>\<open>number\<close> of the first
  such issue in page order. If \<open>items\<close> holds none and carries no usable \<^verbatim>\<open>next\<close> link, the
  search has requested every page and returns \<^verbatim>\<open>None\<close>. Titles are compared as strings,
  character by character. The page budget has to cover the pages met.
\<close>

theorem paginated_search:
  assumes "serves E (API_URL @ ''/repos/'' @ repo @ ''/issues'') first_params
             (map page before @ [Inr (PList items, nxt)])"
    and "\<forall>p \<in> set before. list_all (unmatched t) (fst p)"
    and "length before < fuel"
  shows "(items = pre @ PDict d # post \<and> list_all (unmatched t) pre \<and>
          dict_get d ''title'' PNone = PStr t \<longrightarrow>
            check_existing_issue fuel E repo tok t =
              (visited (API_URL @ ''/repos/'' @ repo @ ''/issues'') first_params
                 (map page before @ [Inr (PList items, nxt)]),
               Returned (dict_get d ''number'' PNone))) \<and>
         (list_all (unmatched t) items \<and> (nxt = None \<or> nxt = Some []) \<longrightarrow>
            check_existing_issue fuel E repo tok t =
              (visited (API_URL @ ''/repos/'' @ repo @ ''/issues'') first_params
                 (map page before @ [Inr (PList items, nxt)]),
               Returned PNone))"
  using search_found[of E repo before pre d post nxt t fuel tok]
    search_exhausted[of E repo before items nxt t fuel tok] assms
  by blast

lemma demo_serves_two:
  "serves (demo_env v r (two_pages title)) (API_URL @ ''/repos/'' @ ''test-owner/test-repo'' @ ''/issues'')
     first_params
     (map page [([PDict [(PStr ''title'', PStr ''Wrong issue''), (PStr ''number'', PInt 111)]],
                 ''https://api.github.com/repos/test-owner/test-repo/issues?page=2'')] @
      [Inr (PList [PDict [(PStr ''title'', PStr title), (PStr ''number'', PInt 123)]], None)])"
  by (simp add: demo_env_def two_pages_def API_URL_def)

theorem paginated_search_witness:
  "check_existing_issue 2 (demo_env ''v1.19.1'' (PStr ''v1.18.2'') (two_pages ''Update me''))
     ''test-owner/test-repo'' ''fake-token'' ''Update me'' =
     ([Get_issues ''https://api.github.com/repos/test-owner/test-repo/issues''
         [(''state'', PStr ''open''), (''per_page'', PInt 100)],
       Get_issues ''https://api.github.com/repos/test-owner/test-repo/issues?page=2'' []],
      Returned (PInt 123)) \<and>
   check_existing_issue 2 (demo_env ''v1.19.1'' (PStr ''v1.18.2'') (two_pages ''update me''))
     ''test-owner/test-repo'' ''fake-token'' ''Update me'' =
     ([Get_issues ''https://api.github.com/repos/test-owner/test-repo/issues''
         [(''state'', PStr ''open''), (''per_page'', PInt 100)],
       Get_issues ''https://api.github.com/repos/test-owner/test-repo/issues?page=2'' []],
      Returned PNone)"
proof -
  have fuel: "length [([PDict [(PStr ''title'', PStr ''Wrong issue''), (PStr ''number'', PInt 111)]],
                 ''https://api.github.com/repos/test-owner/test-repo/issues?page=2'')] < (2::nat)"
    by simp
  have um: "\<forall>p \<in> set [([PDict [(PStr ''title'', PStr ''Wrong issue''), (PStr ''number'', PInt 111)]],
                 ''https://api.github.com/repos/test-owner/test-repo/issues?page=2'')].
              list_all (unmatched ''Update me'') (fst p)"
    by (simp add: dict_get_def)
  note s1 = demo_serves_two[of "''v1.19.1''" "PStr ''v1.18.2''" "''Update me''"]
  note s2 = demo_serves_two[of "''v1.19.1''" "PStr ''v1.18.2''" "''update me''"]
  show ?thesis
    using paginated_search[OF s1 um fuel, where pre = "[]" and post = "[]"
               and d = "[(PStr ''title'', PStr ''Update me''), (PStr ''number'', PInt 123)]"
               and tok = "''fake-token''"]
          paginated_search[OF s2 um fuel, where pre = "[]" and post = "[]"
               and d = "[(PStr ''title'', PStr ''update me''), (PStr ''number'', PInt 123)]"
               and tok = "''fake-token''"]
    by (simp add: dict_get_def first_params_def API_URL_def)
qed

section \<open>What the orchestrator does with the result of the search\<close>

lemma notify_not_found:
  assumes "check_existing_issue fuel E repo (token A) (issue_title n l) = (tr, Returned v)"
    and "\<not> truthy v"
  shows "notify fuel E A repo vf g n t l =
           (tr @ fst (create_branch E A repo vf g n t l), snd (create_branch E A repo vf g n t l))"
  using assms by (simp add: notify_def create_branch_def Let_def split: prod.splits)

lemma notify_found:
  assumes "check_existing_issue fuel E repo (token A) (issue_title n l) = (tr, Returned v)"
    and "truthy v"
  shows "notify fuel E A repo vf g n t l =
           (tr @ [Print Stdout (Issue_exists (py_str (repr_of E) v) (issue_title n l))], Returned ())"
  using assms by (simp add: notify_def Let_def emit_def split: prod.splits)

lemma create_branch_tracker:
  "create_branch (E\<lparr>list_issues := tracker\<rparr>) A repo vf g n t l = create_branch E A repo vf g n t l"
  by (simp add: create_branch_def get_maintainers_def maintainers_try_def create_github_issue_def)

lemma get_maintainers_returns: "\<exists>tr v. get_maintainers E p g = (tr, Returned v)"
  by (cases "load_yaml_file E p"; cases "projr (load_yaml_file E p)")
     (auto simp: get_maintainers_def maintainers_try_def lift_def Let_def)

lemma catch_prefix: "\<exists>tr' r'. catch (tr, r) h = (tr @ tr', r')"
proof (cases r)
  case (Raised e)
  then show ?thesis by (cases "h e") auto
qed auto

lemma create_posts:
  "\<exists>tr r. create_github_issue E repo tok title body assignees =
      (Post_issue (API_URL @ ''/repos/'' @ repo @ ''/issues'') title body assignees # tr, r)"
  unfolding create_github_issue_def Let_def bind_emit
  using catch_prefix[of "[Post_issue (API_URL @ ''/repos/'' @ repo @ ''/issues'') title body assignees] @ tr" for tr]
  by (metis append_Cons append_Nil)

lemma create_branch_posts:
  assumes "get_maintainers E (maintainers_file A) g = (mtr, Returned assignees)"
    and "py_join assignees = Inr joined"
  shows "Post_issue (API_URL @ ''/repos/'' @ repo @ ''/issues'') (issue_title n l)
           (issue_body repo vf n t l) assignees \<in> set (fst (create_branch E A repo vf g n t l))"
proof -
  obtain tr r where c: "create_github_issue E repo (token A) (issue_title n l)
      (issue_body repo vf n t l) assignees =
      (Post_issue (API_URL @ ''/repos/'' @ repo @ ''/issues'') (issue_title n l)
           (issue_body repo vf n t l) assignees # tr, r)"
    using create_posts by blast
  show ?thesis
    by (simp add: create_branch_def assms bind_emit lift_def emit_def c)
qed

lemma process_app_triggered:
  assumes "truthy (dict_get d ''chart'' PNone)"
    and "get_latest_helm_version E (dict_get d ''repoURL'' PNone)
           (dict_get d ''chart'' PNone) (dict_get d ''chart'' PNone) = (ltr, Returned lv)"
    and "truthy lv"
    and "t = py_str (repr_of E) (dict_get d ''targetRevision'' (PStr []))"
    and "lv \<noteq> PStr t" and "t \<noteq> []"
  shows "process_app fuel E A repo vf g (name, PDict d) =
     (ltr @ [Print Stdout Separator,
             Print Stdout (Checking (py_str (repr_of E) name) g),
             Print Stdout (Your_version t),
             Print Stdout (Latest_version (py_str (repr_of E) lv)),
             Print Stdout Separator] @
      fst (notify fuel E A repo vf g (py_str (repr_of E) name) t (py_str (repr_of E) lv)),
      snd (notify fuel E A repo vf g (py_str (repr_of E) name) t (py_str (repr_of E) lv)))"
  using assms
  by (simp add: process_app_def Let_def bind_emit split: prod.splits)

lemma process_app_untriggered:
  assumes "truthy (dict_get d ''chart'' PNone)"
    and "get_latest_helm_version E (dict_get d ''repoURL'' PNone)
           (dict_get d ''chart'' PNone) (dict_get d ''chart'' PNone) = (ltr, Returned lv)"
    and "truthy lv"
    and "t = py_str (repr_of E) (dict_get d ''targetRevision'' (PStr []))"
    and "\<not> (lv \<noteq> PStr t \<and> t \<noteq> [])"
  shows "process_app fuel E A repo vf g (name, PDict d) =
     (ltr @ [Print Stdout Separator,
             Print Stdout (Checking (py_str (repr_of E) name) g),
             Print Stdout (Your_version t),
             Print Stdout (Latest_version (py_str (repr_of E) lv)),
             Print Stdout Separator],
      Returned ())"
  using assms
  by (auto simp add: process_app_def Let_def bind_emit emit_def split: prod.splits)

text \<open>
  Claim C3. When the listing fails with a transport error at some page, after pages that
  hold no issue of the wanted title, the search logs the failure and returns \<^verbatim>\<open>None\<close>.
  The orchestrator then runs the branch that creates the issue: with assignees that can be
  joined (a list of strings, possibly empty) the request to create the issue is made. The
  run after the search is the same as in any world that differs only in its tracker and
  where the search returns \<^verbatim>\<open>None\<close> for want of a match.
\<close>

theorem listing_failure_creates:
  assumes "serves E (API_URL @ ''/repos/'' @ repo @ ''/issues'') first_params
             (map page before @ [Inl RequestException])"
    and "\<forall>p \<in> set before. list_all (unmatched (issue_title n l)) (fst p)"
    and "length before < fuel"
    and "get_maintainers E (maintainers_file A) g = (mtr, Returned assignees)"
    and "py_join assignees = Inr joined"
  shows "check_existing_issue fuel E repo (token A) (issue_title n l) =
           (visited (API_URL @ ''/repos/'' @ repo @ ''/issues'') first_params
              (map page before @ [Inl RequestException]) @ [Print Stderr Issues_check_failed],
            Returned PNone) \<and>
         notify fuel E A repo vf g n t l =
           (visited (API_URL @ ''/repos/'' @ repo @ ''/issues'') first_params
              (map page before @ [Inl RequestException]) @ [Print Stderr Issues_check_failed] @
            fst (create_branch E A repo vf g n t l),
            snd (create_branch E A repo vf g n t l)) \<and>
         Post_issue (API_URL @ ''/repos/'' @ repo @ ''/issues'') (issue_title n l)
           (issue_body repo vf n t l) assignees \<in> set (fst (create_branch E A repo vf g n t l)) \<and>
         (\<forall>tracker tr'.
            check_existing_issue fuel (E\<lparr>list_issues := tracker\<rparr>) repo (token A)
              (issue_title n l) = (tr', Returned PNone) \<longrightarrow>
            notify fuel (E\<lparr>list_issues := tracker\<rparr>) A repo vf g n t l =
              (tr' @ fst (create_branch E A repo vf g n t l),
               snd (create_branch E A repo vf g n t l)))"
proof -
  note s = search_failed[OF assms(1-3), of "token A"]
  have a: "notify fuel E A repo vf g n t l =
           (visited (API_URL @ ''/repos/'' @ repo @ ''/issues'') first_params
              (map page before @ [Inl RequestException]) @ [Print Stderr Issues_check_failed] @
            fst (create_branch E A repo vf g n t l),
            snd (create_branch E A repo vf g n t l))"
    using notify_not_found[OF s, of vf g t] by simp
  have b: "notify fuel (E\<lparr>list_issues := tracker\<rparr>) A repo vf g n t l =
              (tr' @ fst (create_branch E A repo vf g n t l),
               snd (create_branch E A repo vf g n t l))"
    if "check_existing_issue fuel (E\<lparr>list_issues := tracker\<rparr>) repo (token A)
              (issue_title n l) = (tr', Returned PNone)" for tracker tr'
    using notify_not_found[OF that, of vf g t] by (simp add: create_branch_tracker)
  show ?thesis
    using s a b create_branch_posts[OF assms(4,5)] by blast
qed

lemma demo_serves_failing:
  "serves (demo_env v r second_page_fails)
     (API_URL @ ''/repos/'' @ ''test-owner/test-repo'' @ ''/issues'') first_params
     (map page [([PDict [(PStr ''title'', PStr ''Wrong issue''), (PStr ''number'', PInt 111)]],
                 ''https://api.github.com/repos/test-owner/test-repo/issues?page=2'')] @
      [Inl RequestException])"
  by (simp add: demo_env_def second_page_fails_def API_URL_def)

lemma demo_maintainers_found:
  "get_maintainers (demo_env v r tr) (maintainers_file demo_args) ''firsttest-apps'' =
     ([], Returned (PList [PStr ''gh-user2'']))"
  by (simp add: get_maintainers_def maintainers_try_def demo_env_def demo_args_def
      demo_maintainers_def lift_def dict_get_def)

theorem listing_failure_creates_witness:
  "check_existing_issue 2 (demo_env ''v1.19.1'' (PStr ''v1.18.2'') second_page_fails)
     ''test-owner/test-repo'' (token demo_args) (issue_title ''certManager'' ''v1.19.1'') =
     ([Get_issues ''https://api.github.com/repos/test-owner/test-repo/issues''
         [(''state'', PStr ''open''), (''per_page'', PInt 100)],
       Get_issues ''https://api.github.com/repos/test-owner/test-repo/issues?page=2'' [],
       Print Stderr Issues_check_failed],
      Returned PNone) \<and>
   Post_issue ''https://api.github.com/repos/test-owner/test-repo/issues''
     (issue_title ''certManager'' ''v1.19.1'')
     (issue_body ''test-owner/test-repo'' ''charts/firsttest-apps/values.yaml'' ''certManager''
        ''v1.18.2'' ''v1.19.1'')
     (PList [PStr ''gh-user2''])
   \<in> set (fst (notify 2 (demo_env ''v1.19.1'' (PStr ''v1.18.2'') second_page_fails) demo_args
       ''test-owner/test-repo'' ''charts/firsttest-apps/values.yaml'' ''firsttest-apps''
       ''certManager'' ''v1.18.2'' ''v1.19.1''))"
proof -
  have fuel: "length [([PDict [(PStr ''title'', PStr ''Wrong issue''), (PStr ''number'', PInt 111)]],
                 ''https://api.github.com/repos/test-owner/test-repo/issues?page=2'')] < (2::nat)"
    by simp
  have um: "\<forall>p \<in> set [([PDict [(PStr ''title'', PStr ''Wrong issue''), (PStr ''number'', PInt 111)]],
                 ''https://api.github.com/repos/test-owner/test-repo/issues?page=2'')].
              list_all (unmatched (issue_title ''certManager'' ''v1.19.1'')) (fst p)"
    by (simp add: dict_get_def issue_title_def)
  have j: "py_join (PList [PStr ''gh-user2'']) = Inr ''gh-user2''"
    by (simp add: py_join_def)
  show ?thesis
    using listing_failure_creates[OF demo_serves_failing um fuel demo_maintainers_found j,
            where vf = "''charts/firsttest-apps/values.yaml''" and t = "''v1.18.2''"]
    by (simp add: first_params_def API_URL_def)
qed

text \<open>
  Claim C2. For an application whose notification is triggered, when the search meets an
  open issue whose title is exactly \<^verbatim>\<open>New Version Available: <name> <latest>\<close> (its
  number \<open>k\<close> a positive integer, as the tracker numbers issues from 1), the orchestrator
  prints that the issue exists and makes no request to create an issue. A second run over
  unchanged upstream versions meets the issue the first run created and so creates none.
\<close>

theorem existing_issue_short_circuit:
  assumes "truthy (dict_get d ''chart'' PNone)"
    and "get_latest_helm_version E (dict_get d ''repoURL'' PNone)
           (dict_get d ''chart'' PNone) (dict_get d ''chart'' PNone) = (ltr, Returned lv)"
    and "truthy lv"
    and "t = py_str (repr_of E) (dict_get d ''targetRevision'' (PStr []))"
    and "lv \<noteq> PStr t" and "t \<noteq> []"
    and "title = issue_title (py_str (repr_of E) name) (py_str (repr_of E) lv)"
    and "serves E (API_URL @ ''/repos/'' @ repo @ ''/issues'') first_params
           (map page before @ [Inr (PList (pre @ PDict i # post), nxt)])"
    and "\<forall>p \<in> set before. list_all (unmatched title) (fst p)"
    and "list_all (unmatched title) pre"
    and "dict_get i ''title'' PNone = PStr title"
    and "dict_get i ''number'' PNone = PInt k" and "0 < k"
    and "length before < fuel"
  shows "process_app fuel E A repo vf g (name, PDict d) =
     (ltr @ [Print Stdout Separator,
             Print Stdout (Checking (py_str (repr_of E) name) g),
             Print Stdout (Your_version t),
             Print Stdout (Latest_version (py_str (repr_of E) lv)),
             Print Stdout Separator] @
      visited (API_URL @ ''/repos/'' @ repo @ ''/issues'') first_params
        (map page before @ [Inr (PList (pre @ PDict i # post), nxt)]) @
      [Print Stdout (Issue_exists (show_int k) title)],
      Returned ()) \<and>
     \<not> posts (fst (process_app fuel E A repo vf g (name, PDict d)))"
proof -
  have np: "\<not> posts ltr"
    using latest_no_post[of E "dict_get d ''repoURL'' PNone" "dict_get d ''chart'' PNone"
        "dict_get d ''chart'' PNone"] assms(2) by simp
  have c: "check_existing_issue fuel E repo (token A) title =
           (visited (API_URL @ ''/repos/'' @ repo @ ''/issues'') first_params
              (map page before @ [Inr (PList (pre @ PDict i # post), nxt)]),
            Returned (PInt k))"
    using search_found[OF assms(8,9,14,10,11)] assms(12) by simp
  have n: "notify fuel E A repo vf g (py_str (repr_of E) name) t (py_str (repr_of E) lv) =
           (visited (API_URL @ ''/repos/'' @ repo @ ''/issues'') first_params
              (map page before @ [Inr (PList (pre @ PDict i # post), nxt)]) @
            [Print Stdout (Issue_exists (show_int k) title)], Returned ())"
    using notify_found[OF c[unfolded assms(7)], of vf g t] assms(13)
    by (simp add: assms(7))
  show ?thesis
    using process_app_triggered[OF assms(1-6), of fuel A repo vf g name] np
    by (simp add: n visited_no_post)
qed

lemma demo_chart: "truthy (dict_get (demo_details r) ''chart'' PNone)"
  by (simp add: demo_details_def dict_get_def)

theorem existing_issue_short_circuit_witness:
  "process_app 2
     (demo_env ''v1.19.1'' (PStr ''v1.18.2'')
        (two_pages ''New Version Available: certManager v1.19.1''))
     demo_args ''test-owner/test-repo'' ''charts/firsttest-apps/values.yaml'' ''firsttest-apps''
     (PStr ''certManager'', PDict (demo_details (PStr ''v1.18.2''))) =
     ([Get_index ''https://charts.jetstack.io/index.yaml'',
       Print Stdout Separator,
       Print Stdout (Checking ''certManager'' ''firsttest-apps''),
       Print Stdout (Your_version ''v1.18.2''),
       Print Stdout (Latest_version ''v1.19.1''),
       Print Stdout Separator,
       Get_issues ''https://api.github.com/repos/test-owner/test-repo/issues''
         [(''state'', PStr ''open''), (''per_page'', PInt 100)],
       Get_issues ''https://api.github.com/repos/test-owner/test-repo/issues?page=2'' [],
       Print Stdout (Issue_exists ''123'' ''New Version Available: certManager v1.19.1'')],
      Returned ()) \<and>
   \<not> posts (fst (process_app 2
     (demo_env ''v1.19.1'' (PStr ''v1.18.2'')
        (two_pages ''New Version Available: certManager v1.19.1''))
     demo_args ''test-owner/test-repo'' ''charts/firsttest-apps/values.yaml'' ''firsttest-apps''
     (PStr ''certManager'', PDict (demo_details (PStr ''v1.18.2'')))))"
proof -
  let ?T = "''New Version Available: certManager v1.19.1''"
  let ?E = "demo_env ''v1.19.1'' (PStr ''v1.18.2'') (two_pages ?T)"
  have fuel: "length [([PDict [(PStr ''title'', PStr ''Wrong issue''), (PStr ''number'', PInt 111)]],
                 ''https://api.github.com/repos/test-owner/test-repo/issues?page=2'')] < (2::nat)"
    by simp
  have um: "\<forall>p \<in> set [([PDict [(PStr ''title'', PStr ''Wrong issue''), (PStr ''number'', PInt 111)]],
                 ''https://api.github.com/repos/test-owner/test-repo/issues?page=2'')].
              list_all (unmatched ?T) (fst p)"
    by (simp add: dict_get_def)
  have t: "''v1.18.2'' = py_str (repr_of ?E)
             (dict_get (demo_details (PStr ''v1.18.2'')) ''targetRevision'' (PStr []))"
    by (simp add: demo_details_def dict_get_def)
  have title: "?T = issue_title (py_str (repr_of ?E) (PStr ''certManager''))
                      (py_str (repr_of ?E) (PStr ''v1.19.1''))"
    by (simp add: issue_title_def)
  have s: "serves ?E (API_URL @ ''/repos/'' @ ''test-owner/test-repo'' @ ''/issues'') first_params
     (map page [([PDict [(PStr ''title'', PStr ''Wrong issue''), (PStr ''number'', PInt 111)]],
                 ''https://api.github.com/repos/test-owner/test-repo/issues?page=2'')] @
      [Inr (PList ([] @ PDict [(PStr ''title'', PStr ?T), (PStr ''number'', PInt 123)] # []), None)])"
    using demo_serves_two[of "''v1.19.1''" "PStr ''v1.18.2''" ?T] by simp
  have sn: "show_int 123 = ''123''"
    by code_simp
  show ?thesis
    using existing_issue_short_circuit[OF demo_chart demo_latest _ t _ _ title s um _ _ _ _ fuel,
            where k = 123 and A = demo_args and vf = "''charts/firsttest-apps/values.yaml''"
              and g = "''firsttest-apps''"]
    by (simp add: dict_get_def first_params_def API_URL_def sn)
qed

text \<open>
  Claim C9. When \<^verbatim>\<open>targetRevision\<close> is present and null, the declared version is
  \<^verbatim>\<open>str(None)\<close>, the four characters \<^verbatim>\<open>None\<close>; it is what the comparison line prints, it
  is not empty, and the notification path is entered exactly when the latest version is
  not the string \<^verbatim>\<open>None\<close>.
\<close>

theorem null_target_revision:
  assumes "0 < fuel"
    and "dict_find d (PStr ''targetRevision'') = Some PNone"
    and "truthy (dict_get d ''chart'' PNone)"
    and "get_latest_helm_version E (dict_get d ''repoURL'' PNone)
           (dict_get d ''chart'' PNone) (dict_get d ''chart'' PNone) = (ltr, Returned lv)"
    and "truthy lv"
  shows "py_str (repr_of E) (dict_get d ''targetRevision'' (PStr [])) = ''None'' \<and>
         length ''None'' = 4 \<and>
         Print Stdout (Your_version ''None'') \<in>
           set (fst (process_app fuel E A repo vf g (name, PDict d))) \<and>
         (searches (fst (process_app fuel E A repo vf g (name, PDict d))) \<longleftrightarrow>
            lv \<noteq> PStr ''None'')"
proof -
  have t: "py_str (repr_of E) (dict_get d ''targetRevision'' (PStr [])) = ''None''"
    using assms(2) by (simp add: dict_get_def)
  have ns: "\<not> searches ltr"
    using latest_no_search[of E "dict_get d ''repoURL'' PNone" "dict_get d ''chart'' PNone"
        "dict_get d ''chart'' PNone"] assms(4) by simp
  show ?thesis
  proof (cases "lv = PStr ''None''")
    case True
    then show ?thesis
      using process_app_untriggered[OF assms(3,4,5) t[symmetric], of fuel A repo vf g name] t ns
      by simp
  next
    case False
    then show ?thesis
      using process_app_triggered[OF assms(3,4,5) t[symmetric], of fuel A repo vf g name] t ns
        notify_searches[OF assms(1), of E A repo vf g "py_str (repr_of E) name" "''None''" "py_str (repr_of E) lv"]
      by simp
  qed
qed

theorem null_target_revision_witness:
  "py_str (repr_of (demo_env ''v1.19.1'' PNone no_issues))
     (dict_get (demo_details PNone) ''targetRevision'' (PStr [])) = ''None'' \<and>
   Print Stdout (Your_version ''None'') \<in>
     set (fst (process_app 1 (demo_env ''v1.19.1'' PNone no_issues) demo_args
       ''test-owner/test-repo'' ''charts/firsttest-apps/values.yaml'' ''firsttest-apps''
       (PStr ''certManager'', PDict (demo_details PNone)))) \<and>
   searches (fst (process_app 1 (demo_env ''v1.19.1'' PNone no_issues) demo_args
       ''test-owner/test-repo'' ''charts/firsttest-apps/values.yaml'' ''firsttest-apps''
       (PStr ''certManager'', PDict (demo_details PNone))))"
proof -
  have pos: "0 < (1::nat)" by simp
  have f: "dict_find (demo_details PNone) (PStr ''targetRevision'') = Some PNone"
    by (simp add: demo_details_def)
  have tr: "truthy (PStr ''v1.19.1'')" by simp
  show ?thesis
    using null_target_revision[OF pos f demo_chart demo_latest tr,
            where A = demo_args and repo = "''test-owner/test-repo''"
              and vf = "''charts/firsttest-apps/values.yaml''" and g = "''firsttest-apps''"
              and name = "PStr ''certManager''" and tr1 = no_issues]
    by simp
qed

section \<open>Exit status\<close>

text \<open>
  \<^verbatim>\<open>sys.exit\<close> is called in \<^verbatim>\<open>main\<close> only, and there exactly when the repository
  variable or the token is missing or empty or the maintainers file is no file.
\<close>

lemma bind_exit_iff:
  "is_exit (snd (bind_comp m f)) \<longleftrightarrow>
     is_exit (snd m) \<or> (\<exists>x. snd m = Returned x \<and> is_exit (snd (f x)))"
proof (cases m)
  case (Pair tr r)
  then show ?thesis by (cases r) (auto split: prod.splits)
qed

lemma catch_exit_iff:
  "is_exit (snd (catch m h)) \<longleftrightarrow>
     is_exit (snd m) \<or> (\<exists>e c. snd m = Raised e \<and> h e = Some c \<and> is_exit (snd c))"
proof (cases m)
  case (Pair tr r)
  then show ?thesis by (cases r) (auto split: option.splits)
qed

lemma lift_no_exit: "\<not> is_exit (snd (lift r))"
  by (simp add: lift_def split: sum.splits)

lemma emit_no_exit: "\<not> is_exit (snd (emit es))"
  by (simp add: emit_def)

lemmas exit_simps = bind_exit_iff catch_exit_iff lift_no_exit emit_no_exit

lemma get_maintainers_no_exit: "\<not> is_exit (snd (get_maintainers E p g))"
  by (auto simp: get_maintainers_def maintainers_try_def exit_simps Let_def
      split: pyval.splits if_splits)

lemma get_latest_no_exit: "\<not> is_exit (snd (get_latest_helm_version E u c r))"
  by (auto simp: get_latest_helm_version_def Let_def exit_simps split: if_splits)

lemma issues_page_no_exit: "\<not> is_exit (snd (issues_page E t u p))"
  by (auto simp: issues_page_def exit_simps split: if_splits option.splits prod.splits)

lemma issues_loop_no_exit: "\<not> is_exit (snd (issues_loop fuel E t u p))"
proof (induction fuel E t u p rule: issues_loop.induct)
  case (4 fuel E title c u params)
  then show ?case
    by (auto simp: exit_simps issues_page_no_exit split: loop_step.splits)
qed simp_all

lemma create_no_exit: "\<not> is_exit (snd (create_github_issue E repo tok t b a))"
  by (auto simp: create_github_issue_def Let_def exit_simps split: if_splits)

lemma notify_no_exit: "\<not> is_exit (snd (notify fuel E A repo vf g n t l))"
  by (auto simp: notify_def Let_def check_existing_issue_def exit_simps issues_loop_no_exit
      get_maintainers_no_exit create_no_exit split: if_splits)

lemma process_app_no_exit: "\<not> is_exit (snd (process_app fuel E A repo vf g item))"
  by (auto simp: process_app_def Let_def exit_simps get_latest_no_exit notify_no_exit
      split: if_splits prod.splits pyval.splits)

lemma process_apps_no_exit: "\<not> is_exit (snd (process_apps fuel E A repo vf g items))"
  by (induction items) (auto simp: exit_simps process_app_no_exit)

lemma process_file_no_exit: "\<not> is_exit (snd (process_file fuel E A repo vf))"
  by (auto simp: process_file_def exit_simps process_apps_no_exit
      split: if_splits prod.splits pyval.splits sum.splits)

lemma process_files_no_exit: "\<not> is_exit (snd (process_files fuel E A repo vfs))"
  by (induction vfs) (auto simp: exit_simps process_file_no_exit)

lemma main_sys_exit:
  "is_exit (snd (main fuel E A)) \<longleftrightarrow>
     REPO E = None \<or> REPO E = Some [] \<or> token A = [] \<or> \<not> path_is_file E (maintainers_file A)"
proof -
  have "\<not> is_exit (snd (bind_comp (emit [Print Stdout (Running_on repo)]) (\<lambda>_.
              let values_files = glob_values E (charts_path A) in
              if values_files = []
              then emit [Print Stdout (No_values_files (charts_path A))]
              else
                bind_comp (process_files fuel E A repo values_files) (\<lambda>_.
                  emit [Print Stdout Script_finished]))))" for repo
    by (auto simp: exit_simps process_files_no_exit Let_def)
  then show ?thesis
    by (auto simp: main_def split: option.splits)
qed

text \<open>
  Claim C8. The claim does not hold of the code. With the repository variable and the token
  set and the maintainers file in place, a values file whose document is a list makes
  \<^verbatim>\<open>apps_data.items()\<close> raise \<^verbatim>\<open>AttributeError\<close>, and an index body that is no YAML
  document makes \<^verbatim>\<open>yaml.safe_load\<close> raise \<^verbatim>\<open>YAMLError\<close>, which no handler of the resolver
  names. Either exception leaves \<^verbatim>\<open>main\<close>: the run ends before its closing message, with
  exit status 1.
\<close>

theorem malformed_documents_end_the_run:
  "REPO list_values_env = Some ''test-owner/test-repo'' \<and>
   token demo_args = ''fake-token'' \<and>
   path_is_file list_values_env (maintainers_file demo_args) \<and>
   main 1 list_values_env demo_args =
     ([Print Stdout (Running_on ''test-owner/test-repo''),
       Print Stdout (Processing_file ''charts/firsttest-apps/values.yaml'')],
      Raised AttributeError) \<and>
   exit_status (snd (main 1 list_values_env demo_args)) = Some 1 \<and>
   REPO bad_index_env = Some ''test-owner/test-repo'' \<and>
   path_is_file bad_index_env (maintainers_file demo_args) \<and>
   main 1 bad_index_env demo_args =
     ([Print Stdout (Running_on ''test-owner/test-repo''),
       Print Stdout (Processing_file ''charts/firsttest-apps/values.yaml''),
       Get_index ''https://charts.jetstack.io/index.yaml''],
      Raised YAMLError) \<and>
   exit_status (snd (main 1 bad_index_env demo_args)) = Some 1"
  by code_simp

end
